theory Spec2Isabelle
  imports Main "HOL-Library.Sublist" "HOL-Library.Multiset" "HOL-Library.Product_Lexorder"
begin

section \<open>Strings and numbers of the JavaScript source\<close>

text \<open>
  A JavaScript string is modelled as a \<^typ>\<open>string\<close>: a list of characters, each one
  code unit below 256. Numbers that the modelled functions handle are counts and
  minutes; they are modelled as \<^typ>\<open>nat\<close> (or \<^typ>\<open>int\<close> where a difference is
  taken), which agrees with the IEEE doubles of the source as long as every value stays
  below \<open>2 ^ 53\<close>.
\<close>

text \<open>
  The template literal \<^verbatim>\<open>`${n}`\<close> of a natural number: its decimal digits, most
  significant first, no leading zero.
\<close>

fun number_to_string :: "nat \<Rightarrow> string" where
  "number_to_string n =
     (if n < 10 then [''0123456789'' ! n]
      else number_to_string (n div 10) @ [''0123456789'' ! (n mod 10)])"

declare number_to_string.simps [simp del]

text \<open>
  Character classes of the regular expression and of \<^verbatim>\<open>toLowerCase\<close>, on code
  units below 256. \<^verbatim>\<open>\d\<close> is the ASCII digits; \<^verbatim>\<open>\s\<close> is TAB, LF, VT, FF, CR,
  SPACE and NBSP. Under the \<^verbatim>\<open>i\<close> flag (without \<^verbatim>\<open>u\<close>) two code units match when
  their canonical forms are equal; the canonical form upper-cases, and it never maps a
  code unit from 128 on to one below 128, so for the ASCII letters of the pattern only
  the ASCII range matters.
\<close>

definition is_digit :: "char \<Rightarrow> bool" where
  "is_digit c = (48 \<le> (of_char c :: nat) \<and> (of_char c :: nat) \<le> 57)"

definition is_space :: "char \<Rightarrow> bool" where
  "is_space c = ((of_char c :: nat) \<in> {9, 10, 11, 12, 13, 32, 160})"

definition canonicalize :: "char \<Rightarrow> char" where
  "canonicalize c =
     (if 97 \<le> (of_char c :: nat) \<and> (of_char c :: nat) \<le> 122
      then char_of ((of_char c :: nat) - 32) else c)"

definition toLowerCase_char :: "char \<Rightarrow> char" where
  "toLowerCase_char c =
     (let n = (of_char c :: nat) in
      if (65 \<le> n \<and> n \<le> 90) \<or> (192 \<le> n \<and> n \<le> 222 \<and> n \<noteq> 215)
      then char_of (n + 32) else c)"

definition toLowerCase :: "string \<Rightarrow> string" where
  "toLowerCase s = map toLowerCase_char s"

text \<open>\<^verbatim>\<open>hay.includes(needle)\<close>: the needle occurs as a contiguous part of the string.\<close>

definition includes_str :: "string \<Rightarrow> string \<Rightarrow> bool" where
  "includes_str hay needle = list_ex (prefix needle) (suffixes hay)"

text \<open>\<^verbatim>\<open>parseInt\<close> on a string of decimal digits.\<close>

definition digit_value :: "char \<Rightarrow> nat" where
  "digit_value c = (of_char c :: nat) - 48"

definition parseInt :: "string \<Rightarrow> nat" where
  "parseInt ds = foldl (\<lambda>v c. 10 * v + digit_value c) 0 ds"

section \<open>Array.prototype.sort with a comparator\<close>

text \<open>
  \<^verbatim>\<open>xs.sort(cmp)\<close> is stable (ECMAScript 2019 on): an element moves before another
  only when the comparator puts it strictly first. For a comparator that is a consistent
  ordering the result is fixed by that; the model is the stable insertion sort, where
  an element is placed before the first later element it is not greater than.
\<close>

fun insort_cmp :: "('a \<Rightarrow> 'a \<Rightarrow> int) \<Rightarrow> 'a \<Rightarrow> 'a list \<Rightarrow> 'a list" where
  "insort_cmp cmp x [] = [x]"
| "insort_cmp cmp x (y # ys) =
     (if cmp x y \<le> 0 then x # y # ys else y # insort_cmp cmp x ys)"

definition js_sort :: "('a \<Rightarrow> 'a \<Rightarrow> int) \<Rightarrow> 'a list \<Rightarrow> 'a list" where
  "js_sort cmp xs = foldr (insort_cmp cmp) xs []"

section \<open>conceptExtractionService.js: the concept and the pathway\<close>

text \<open>
  A concept as \<^verbatim>\<open>extractConcepts\<close> returns it. Fields the schema does not require
  may be absent (\<open>None\<close>).
\<close>

record concept =
  c_id :: string
  c_name :: string
  c_description :: string
  c_difficulty :: string
  c_prerequisites :: "string list option"
  c_subConcepts :: "string list option"
  c_examples :: "string list option"
  c_misconceptions :: "string list option"
  c_keyPrinciples :: "string list option"
  c_estimatedTime :: "string option"
  c_masteryLevel :: int
  c_attempts :: nat
  c_correctAnswers :: nat

text \<open>
  An entry of the pathway: \<^verbatim>\<open>{...concept, order, isUnlocked, dependencies}\<close>.
\<close>

record pathway_item =
  p_concept :: concept
  order :: nat
  isUnlocked :: bool
  dependencies :: "string list"

record distribution =
  Beginner :: nat
  Intermediate :: nat
  Advanced :: nat

text \<open>
  The object \<^verbatim>\<open>createLearningPathway\<close> returns. For no concepts it has only the
  first two properties.
\<close>

record learning_pathway =
  pathway :: "pathway_item list"
  totalEstimatedTime :: string
  totalConcepts :: "nat option"
  difficultyDistribution :: "distribution option"

text \<open>
  \<^verbatim>\<open>
  sortConceptsByDependency(concepts) {
    const difficultyOrder = { 'Beginner': 1, 'Intermediate': 2, 'Advanced': 3 };
    return concepts?.sort((a, b) => {
      const diffA = difficultyOrder?.[a?.difficulty] || 2;
      const diffB = difficultyOrder?.[b?.difficulty] || 2;
      if (diffA !== diffB) { return diffA - diffB; }
      const prereqA = a?.prerequisites?.length || 0;
      const prereqB = b?.prerequisites?.length || 0;
      return prereqA - prereqB;
    });
  }
  \<close>
  The object literal is read as the map of its three own keys.
\<close>

definition difficultyOrder :: "string \<rightharpoonup> nat" where
  "difficultyOrder =
     [''Beginner'' \<mapsto> 1, ''Intermediate'' \<mapsto> 2, ''Advanced'' \<mapsto> 3]"

definition difficulty_rank :: "concept \<Rightarrow> nat" where
  "difficulty_rank a =
     (case difficultyOrder (c_difficulty a) of Some n \<Rightarrow> n | None \<Rightarrow> 2)"

definition prereq_count :: "concept \<Rightarrow> nat" where
  "prereq_count a =
     (case c_prerequisites a of Some ps \<Rightarrow> length ps | None \<Rightarrow> 0)"

definition compare_concepts :: "concept \<Rightarrow> concept \<Rightarrow> int" where
  "compare_concepts a b =
     (let diffA = difficulty_rank a;
          diffB = difficulty_rank b
      in if diffA \<noteq> diffB then int diffA - int diffB
         else
           let prereqA = prereq_count a;
               prereqB = prereq_count b
           in int prereqA - int prereqB)"

definition sortConceptsByDependency :: "concept list \<Rightarrow> concept list" where
  "sortConceptsByDependency concepts = js_sort compare_concepts concepts"

text \<open>
  \<^verbatim>\<open>
  findDependencies(concept, allConcepts) {
    if (!concept?.prerequisites?.length) { return []; }
    return allConcepts?.filter(otherConcept =>
        otherConcept?.id !== concept?.id &&
        concept?.prerequisites?.some(prereq =>
          otherConcept?.name?.toLowerCase()?.includes(prereq?.toLowerCase()) ||
          otherConcept?.subConcepts?.some(sub =>
            sub?.toLowerCase()?.includes(prereq?.toLowerCase()))))
      ?.map(dep => dep?.id);
  }
  \<close>
\<close>

definition findDependencies :: "concept \<Rightarrow> concept list \<Rightarrow> string list" where
  "findDependencies concept allConcepts =
     (case c_prerequisites concept of
        None \<Rightarrow> []
      | Some prerequisites \<Rightarrow>
          if prerequisites = [] then []
          else
            map c_id
              (filter
                (\<lambda>otherConcept.
                   c_id otherConcept \<noteq> c_id concept \<and>
                   list_ex
                     (\<lambda>prereq.
                        includes_str (toLowerCase (c_name otherConcept)) (toLowerCase prereq) \<or>
                        (case c_subConcepts otherConcept of
                           None \<Rightarrow> False
                         | Some subs \<Rightarrow>
                             list_ex
                               (\<lambda>sub. includes_str (toLowerCase sub) (toLowerCase prereq))
                               subs))
                     prerequisites)
                allConcepts))"

text \<open>
  \<^verbatim>\<open>
  calculateDifficultyDistribution(concepts) {
    const distribution = { Beginner: 0, Intermediate: 0, Advanced: 0 };
    concepts?.forEach(concept => {
      if (distribution?.hasOwnProperty(concept?.difficulty)) {
        distribution[concept.difficulty]++;
      }
    });
    return distribution;
  }
  \<close>
\<close>

definition count_difficulty :: "distribution \<Rightarrow> concept \<Rightarrow> distribution" where
  "count_difficulty d concept =
     (if c_difficulty concept = ''Beginner'' then d\<lparr>Beginner := Beginner d + 1\<rparr>
      else if c_difficulty concept = ''Intermediate'' then d\<lparr>Intermediate := Intermediate d + 1\<rparr>
      else if c_difficulty concept = ''Advanced'' then d\<lparr>Advanced := Advanced d + 1\<rparr>
      else d)"

definition calculateDifficultyDistribution :: "concept list \<Rightarrow> distribution" where
  "calculateDifficultyDistribution concepts =
     foldl count_difficulty \<lparr>Beginner = 0, Intermediate = 0, Advanced = 0\<rparr> concepts"

section \<open>conceptExtractionService.js: time utilities\<close>

text \<open>
  \<^verbatim>\<open>
  parseTimeToMinutes(timeString) {
    if (!timeString) return 15; // Default 15 minutes
    const match = timeString?.match(/(\d+)\s*(min|hour|hr)/i);
    if (!match) return 15;
    const value = parseInt(match?.[1]);
    const unit = match?.[2]?.toLowerCase();
    return unit?.includes('hour') || unit?.includes('hr') ? value * 60 : value;
  }
  \<close>
  The regular expression is run as a backtracking matcher does: start positions from
  the left; at a start position the digits greedily, then the white space greedily,
  then the alternatives in their order; on failure the last greedy choice gives back one
  character. The result is the two captured groups.
\<close>

definition unit_alternatives :: "string list" where
  "unit_alternatives = [''min'', ''hour'', ''hr'']"

definition matches_literal :: "string \<Rightarrow> string \<Rightarrow> bool" where
  "matches_literal lit s =
     (length lit \<le> length s \<and>
      map canonicalize (take (length lit) s) = map canonicalize lit)"

definition match_unit :: "string \<Rightarrow> string option" where
  "match_unit s =
     (case filter (\<lambda>lit. matches_literal lit s) unit_alternatives of
        [] \<Rightarrow> None
      | lit # _ \<Rightarrow> Some (take (length lit) s))"

fun match_spaces :: "string \<Rightarrow> string option" where
  "match_spaces [] = match_unit []"
| "match_spaces (c # s) =
     (if is_space c
      then (case match_spaces s of Some u \<Rightarrow> Some u | None \<Rightarrow> match_unit (c # s))
      else match_unit (c # s))"

fun match_digits :: "string \<Rightarrow> string \<Rightarrow> (string \<times> string) option" where
  "match_digits acc [] = map_option (Pair acc) (match_spaces [])"
| "match_digits acc (c # s) =
     (if is_digit c
      then (case match_digits (acc @ [c]) s of
              Some r \<Rightarrow> Some r
            | None \<Rightarrow> map_option (Pair acc) (match_spaces (c # s)))
      else map_option (Pair acc) (match_spaces (c # s)))"

fun match_here :: "string \<Rightarrow> (string \<times> string) option" where
  "match_here [] = None"
| "match_here (c # s) = (if is_digit c then match_digits [c] s else None)"

fun regex_match :: "string \<Rightarrow> (string \<times> string) option" where
  "regex_match [] = match_here []"
| "regex_match (c # s) =
     (case match_here (c # s) of Some r \<Rightarrow> Some r | None \<Rightarrow> regex_match s)"

definition parseTimeToMinutes :: "string option \<Rightarrow> nat" where
  "parseTimeToMinutes timeString =
     (case timeString of
        None \<Rightarrow> 15
      | Some s \<Rightarrow>
          if s = [] then 15
          else
            (case regex_match s of
               None \<Rightarrow> 15
             | Some (g1, g2) \<Rightarrow>
                 let v = parseInt g1;
                     unit = toLowerCase g2
                 in if includes_str unit ''hour'' \<or> includes_str unit ''hr''
                    then v * 60 else v))"






text \<open>
  \<^verbatim>\<open>
  formatMinutesToTime(minutes) {
    if (minutes < 60) { return `${minutes} min`; }
    const hours = Math.floor(minutes / 60);
    const remainingMinutes = minutes % 60;
    if (remainingMinutes === 0) { return `${hours} hour${hours > 1 ? 's' : ''}`; }
    return `${hours}h ${remainingMinutes}min`;
  }
  \<close>
\<close>

definition formatMinutesToTime :: "nat \<Rightarrow> string" where
  "formatMinutesToTime minutes =
     (if minutes < 60 then number_to_string minutes @ '' min''
      else
        let hours = minutes div 60;
            remainingMinutes = minutes mod 60
        in if remainingMinutes = 0
           then number_to_string hours @ '' hour'' @ (if hours > 1 then ''s'' else '''')
           else number_to_string hours @ ''h '' @ number_to_string remainingMinutes @ ''min'')"


text \<open>
  \<^verbatim>\<open>
  createLearningPathway(concepts) {
    if (!concepts?.length) { return { pathway: [], totalEstimatedTime: '0 min' }; }
    const sortedConcepts = this.sortConceptsByDependency(concepts);
    const totalMinutes = sortedConcepts?.reduce((total, concept) => {
      const time = this.parseTimeToMinutes(concept?.estimatedTime);
      return total + time;
    }, 0);
    const totalEstimatedTime = this.formatMinutesToTime(totalMinutes);
    return {
      pathway: sortedConcepts?.map((concept, index) => ({
        ...concept,
        order: index + 1,
        isUnlocked: index === 0, // Only first concept is initially unlocked
        dependencies: this.findDependencies(concept, sortedConcepts)
      })),
      totalEstimatedTime,
      totalConcepts: sortedConcepts?.length,
      difficultyDistribution: this.calculateDifficultyDistribution(sortedConcepts)
    };
  }
  \<close>
  The argument is \<open>None\<close> when the caller passes \<^verbatim>\<open>undefined\<close> or \<^verbatim>\<open>null\<close>.
\<close>

definition createLearningPathway :: "concept list option \<Rightarrow> learning_pathway" where
  "createLearningPathway concepts =
     (case concepts of
        None \<Rightarrow>
          \<lparr>pathway = [], totalEstimatedTime = ''0 min'',
           totalConcepts = None, difficultyDistribution = None\<rparr>
      | Some cs \<Rightarrow>
          if length cs = 0
          then \<lparr>pathway = [], totalEstimatedTime = ''0 min'',
                totalConcepts = None, difficultyDistribution = None\<rparr>
          else
            let sortedConcepts = sortConceptsByDependency cs;
                totalMinutes =
                  foldl (\<lambda>total concept. total + parseTimeToMinutes (c_estimatedTime concept))
                    0 sortedConcepts
            in \<lparr>pathway =
                   map (\<lambda>(index, concept).
                          \<lparr>p_concept = concept,
                           order = index + 1,
                           isUnlocked = (index = 0),
                           dependencies = findDependencies concept sortedConcepts\<rparr>)
                     (enumerate 0 sortedConcepts),
                 totalEstimatedTime = formatMinutesToTime totalMinutes,
                 totalConcepts = Some (length sortedConcepts),
                 difficultyDistribution =
                   Some (calculateDifficultyDistribution sortedConcepts)\<rparr>)"

section \<open>The question generation service\<close>

text \<open>
  The user-performance object maps a concept id to \<^verbatim>\<open>{masteryLevel, attempts}\<close>.
\<close>

record performance =
  masteryLevel :: int
  attempts :: int

type_synonym user_performance = "string \<rightharpoonup> performance"

text \<open>
  \<^verbatim>\<open>
  identifyWeakAreas(concepts, userPerformance) {
    return concepts?.filter(concept => {
      const performance = userPerformance?.[concept?.id] || { masteryLevel: 0, attempts: 0 };
      return performance.masteryLevel < 70 || performance.attempts === 0;
    })?.sort((a, b) => {
      const perfA = userPerformance?.[a?.id] || { masteryLevel: 0 };
      const perfB = userPerformance?.[b?.id] || { masteryLevel: 0 };
      return perfA?.masteryLevel - perfB?.masteryLevel;
    });
  }
  \<close>
  \<open>recorded_mastery\<close> is the \<^verbatim>\<open>masteryLevel\<close> read through the default
  \<^verbatim>\<open>{ masteryLevel: 0 }\<close>.
\<close>

definition recorded_mastery :: "user_performance \<Rightarrow> concept \<Rightarrow> int" where
  "recorded_mastery userPerformance a =
     (case userPerformance (c_id a) of Some perfA \<Rightarrow> masteryLevel perfA | None \<Rightarrow> 0)"

definition identifyWeakAreas :: "concept list \<Rightarrow> user_performance \<Rightarrow> concept list" where
  "identifyWeakAreas concepts userPerformance =
     js_sort
       (\<lambda>a b. recorded_mastery userPerformance a - recorded_mastery userPerformance b)
       (filter
         (\<lambda>concept.
            let performance =
                  (case userPerformance (c_id concept) of
                     Some p \<Rightarrow> p
                   | None \<Rightarrow> \<lparr>masteryLevel = 0, attempts = 0\<rparr>)
            in masteryLevel performance < 70 \<or> attempts performance = 0)
         concepts)"

text \<open>
  \<^verbatim>\<open>
  identifyStrongAreas(concepts, userPerformance) {
    return concepts?.filter(concept => {
      const performance = userPerformance?.[concept?.id] || { masteryLevel: 0 };
      return performance.masteryLevel >= 80;
    })?.sort((a, b) => {
      const perfA = userPerformance?.[a?.id] || { masteryLevel: 0 };
      const perfB = userPerformance?.[b?.id] || { masteryLevel: 0 };
      return perfB?.masteryLevel - perfA?.masteryLevel;
    });
  }
  \<close>
\<close>

definition identifyStrongAreas :: "concept list \<Rightarrow> user_performance \<Rightarrow> concept list" where
  "identifyStrongAreas concepts userPerformance =
     js_sort
       (\<lambda>a b. recorded_mastery userPerformance b - recorded_mastery userPerformance a)
       (filter (\<lambda>concept. recorded_mastery userPerformance concept \<ge> 80) concepts)"

text \<open>
  \<^verbatim>\<open>
  adjustDifficultyForPerformance(concept, userPerformance) {
    const performance = userPerformance?.[concept?.id] || { masteryLevel: 0, attempts: 0 };
    if (performance.masteryLevel < 40) { return 'Beginner'; }
    else if (performance.masteryLevel < 70) { return 'Intermediate'; }
    else { return 'Advanced'; }
  }
  \<close>
\<close>

definition adjustDifficultyForPerformance :: "concept \<Rightarrow> user_performance \<Rightarrow> string" where
  "adjustDifficultyForPerformance concept userPerformance =
     (let performance =
            (case userPerformance (c_id concept) of
               Some p \<Rightarrow> p
             | None \<Rightarrow> \<lparr>masteryLevel = 0, attempts = 0\<rparr>)
      in if masteryLevel performance < 40 then ''Beginner''
         else if masteryLevel performance < 70 then ''Intermediate''
         else ''Advanced'')"

text \<open>
  A question as the model's JSON gives it (\<open>raw_question\<close>), and as
  \<^verbatim>\<open>generateQuestionsForConcept\<close> returns it: the spread of the raw question
  (\<open>q_raw\<close>) with the fields the service sets.
\<close>

record answer_option =
  o_id :: string
  o_text :: string
  o_explanation :: "string option"

record raw_question =
  r_id :: "string option"
  r_type :: string
  r_difficulty :: string
  r_question :: string
  r_context :: "string option"
  r_options :: "answer_option list option"
  r_correctAnswer :: string
  r_sampleAnswers :: "string list option"
  r_explanation :: "string option"
  r_learningObjective :: "string option"
  r_bloomsLevel :: "string option"
  r_estimatedTime :: "string option"

record question =
  q_raw :: raw_question
  q_id :: string
  conceptId :: string
  conceptName :: string
  number :: nat
  createdAt :: string
  q_attempts :: nat
  correctAttempts :: nat
  lastAttempted :: "string option"
  userAnswer :: "string option"
  isCorrect :: "bool option"
  timeSpent :: nat
  hintsUsed :: nat

text \<open>
  The options object of a call; a property left out is \<open>None\<close> and takes the default
  of the destructuring.
\<close>

record generation_options =
  questionCount :: "nat option"
  questionTypes :: "string list option"
  difficultyLevel :: "string option"
  includeExplanations :: "bool option"

datatype error = Error string

text \<open>
  The external completion call together with \<^verbatim>\<open>JSON.parse\<close> of its answer: given
  what the prompt is built from (the concept, the question count, the question types
  and the difficulty level) it yields the \<^verbatim>\<open>questions\<close> array, or \<open>None\<close> when the
  call or the parse throws.
\<close>

type_synonym completion =
  "concept \<Rightarrow> nat \<Rightarrow> string list \<Rightarrow> string \<Rightarrow> raw_question list option"

text \<open>
  \<^verbatim>\<open>
  async generateQuestionsForConcept(concept, options = {}) {
    const {
      questionCount = 5,
      questionTypes = ['multiple_choice', 'true_false', 'short_answer'],
      difficultyLevel = concept?.difficulty,
      includeExplanations = true
    } = options;
    try {
      const response = await openai?.chat?.completions?.create({ ... });
      const generationResult = JSON.parse(response?.choices?.[0]?.message?.content);
      return generationResult?.questions?.map((question, index) => ({
        ...question,
        id: question?.id || `${concept?.id}_q${index + 1}`,
        conceptId: concept?.id,
        conceptName: concept?.name,
        number: index + 1,
        createdAt: new Date()?.toISOString(),
        attempts: 0, correctAttempts: 0, lastAttempted: null, userAnswer: null,
        isCorrect: null, timeSpent: 0, hintsUsed: 0
      }));
    } catch (error) {
      console.error('Error generating questions:', error);
      throw new Error('Failed to generate questions for concept');
    }
  }
  \<close>
  \<open>create\<close> is the completion call of this invocation and \<open>now\<close> the time stamp
  it reads.
\<close>

definition generateQuestionsForConcept ::
    "completion \<Rightarrow> string \<Rightarrow> concept \<Rightarrow> generation_options \<Rightarrow> error + question list" where
  "generateQuestionsForConcept create now concept options =
     (let count = (case questionCount options of Some n \<Rightarrow> n | None \<Rightarrow> 5);
          types = (case questionTypes options of
                     Some ts \<Rightarrow> ts
                   | None \<Rightarrow> [''multiple_choice'', ''true_false'', ''short_answer'']);
          level = (case difficultyLevel options of
                     Some d \<Rightarrow> d
                   | None \<Rightarrow> c_difficulty concept)
      in case create concept count types level of
           None \<Rightarrow> Inl (Error ''Failed to generate questions for concept'')
         | Some questions \<Rightarrow>
             Inr (map (\<lambda>(index, question).
                         \<lparr>q_raw = question,
                          q_id =
                            (case r_id question of
                               Some i \<Rightarrow>
                                 if i = [] then c_id concept @ ''_q'' @ number_to_string (index + 1)
                                 else i
                             | None \<Rightarrow> c_id concept @ ''_q'' @ number_to_string (index + 1)),
                          conceptId = c_id concept,
                          conceptName = c_name concept,
                          number = index + 1,
                          createdAt = now,
                          q_attempts = 0,
                          correctAttempts = 0,
                          lastAttempted = None,
                          userAnswer = None,
                          isCorrect = None,
                          timeSpent = 0,
                          hintsUsed = 0\<rparr>)
                    (enumerate 0 questions)))"

text \<open>
  \<^verbatim>\<open>
  shuffleQuestions(questions) {
    const shuffled = [...questions];
    for (let i = shuffled?.length - 1; i > 0; i--) {
      const j = Math.floor(Math.random() * (i + 1));
      [shuffled[i], shuffled[j]] = [shuffled?.[j], shuffled?.[i]];
    }
    return shuffled?.map((question, index) => ({ ...question, number: index + 1 }));
  }
  \<close>
  \<open>rnd i\<close> is the index \<^verbatim>\<open>Math.floor(Math.random() * (i + 1))\<close> drawn in the
  iteration with loop variable \<open>i\<close>; \<^verbatim>\<open>Math.random()\<close> lies in \<open>[0, 1)\<close>, so the
  index is at most \<open>i\<close>.
\<close>

fun shuffle_loop :: "(nat \<Rightarrow> nat) \<Rightarrow> nat \<Rightarrow> 'a list \<Rightarrow> 'a list" where
  "shuffle_loop rnd 0 shuffled = shuffled"
| "shuffle_loop rnd (Suc k) shuffled =
     (let i = Suc k;
          j = rnd i
      in shuffle_loop rnd k (shuffled[i := shuffled ! j, j := shuffled ! i]))"

definition shuffleQuestions :: "(nat \<Rightarrow> nat) \<Rightarrow> question list \<Rightarrow> question list" where
  "shuffleQuestions rnd questions =
     (let shuffled = shuffle_loop rnd (length questions - 1) questions
      in map (\<lambda>(index, question). question\<lparr>number := index + 1\<rparr>) (enumerate 0 shuffled))"

text \<open>
  \<^verbatim>\<open>Promise.all\<close> over promises that have settled: the list of the values when all
  are fulfilled, a rejection as soon as one is rejected.
\<close>

fun promise_all :: "('e + 'a) list \<Rightarrow> 'e + 'a list" where
  "promise_all [] = Inr []"
| "promise_all (p # ps) =
     (case p of
        Inl e \<Rightarrow> Inl e
      | Inr v \<Rightarrow> (case promise_all ps of Inl e \<Rightarrow> Inl e | Inr vs \<Rightarrow> Inr (v # vs)))"

text \<open>
  \<^verbatim>\<open>
  async generateAdaptiveQuestions(concepts, userPerformance = {}) {
    try {
      const weakConcepts = this.identifyWeakAreas(concepts, userPerformance);
      const strongConcepts = this.identifyStrongAreas(concepts, userPerformance);
      const questionPromises = [];
      for (const concept of weakConcepts?.slice(0, 3)) {
        questionPromises?.push(
          this.generateQuestionsForConcept(concept, {
            questionCount: 3,
            difficultyLevel: this.adjustDifficultyForPerformance(concept, userPerformance)
          }));
      }
      for (const concept of concepts?.slice(0, 2)) {
        if (!weakConcepts?.includes(concept)) {
          questionPromises?.push(
            this.generateQuestionsForConcept(concept, {
              questionCount: 2,
              questionTypes: ['multiple_choice', 'short_answer']
            }));
        }
      }
      if (strongConcepts?.length > 0) {
        questionPromises?.push(
          this.generateQuestionsForConcept(strongConcepts?.[0], {
            questionCount: 1,
            difficultyLevel: 'Advanced'
          }));
      }
      const questionSets = await Promise.all(questionPromises);
      const allQuestions = questionSets?.flat();
      return this.shuffleQuestions(allQuestions);
    } catch (error) {
      console.error('Error generating adaptive questions:', error);
      throw new Error('Failed to generate adaptive questions');
    }
  }
  \<close>
  \<open>questionPromises\<close> is the array of that name when \<^verbatim>\<open>Promise.all\<close> is reached.
  The calls are numbered in the order they are issued: \<open>create k\<close> and \<open>now k\<close> are
  the completion call and the time stamp of call \<open>k\<close> (the number of promises pushed
  before it). \<^verbatim>\<open>weakConcepts.includes(concept)\<close> compares object references; the
  weak concepts are the very objects of the list, and whether an object is weak depends
  on its contents only, so membership of an equal record decides the same.
\<close>

definition push_call ::
    "(nat \<Rightarrow> completion) \<Rightarrow> (nat \<Rightarrow> string) \<Rightarrow> (error + question list) list \<Rightarrow>
     concept \<Rightarrow> generation_options \<Rightarrow> (error + question list) list" where
  "push_call create now promises concept options =
     promises @
       [generateQuestionsForConcept (create (length promises))
          (now (length promises)) concept options]"

definition questionPromises ::
    "(nat \<Rightarrow> completion) \<Rightarrow> (nat \<Rightarrow> string) \<Rightarrow> concept list \<Rightarrow> user_performance \<Rightarrow>
     (error + question list) list" where
  "questionPromises create now concepts userPerformance =
     (let weakConcepts = identifyWeakAreas concepts userPerformance;
          strongConcepts = identifyStrongAreas concepts userPerformance;
          promises0 = [];
          promises1 =
            foldl
              (\<lambda>promises concept.
                 push_call create now promises concept
                   \<lparr>questionCount = Some 3, questionTypes = None,
                    difficultyLevel =
                      Some (adjustDifficultyForPerformance concept userPerformance),
                    includeExplanations = None\<rparr>)
              promises0 (take 3 weakConcepts);
          promises2 =
            foldl
              (\<lambda>promises concept.
                 if concept \<notin> set weakConcepts
                 then push_call create now promises concept
                        \<lparr>questionCount = Some 2,
                         questionTypes = Some [''multiple_choice'', ''short_answer''],
                         difficultyLevel = None, includeExplanations = None\<rparr>
                 else promises)
              promises1 (take 2 concepts)
      in if length strongConcepts > 0
         then push_call create now promises2 (strongConcepts ! 0)
                \<lparr>questionCount = Some 1, questionTypes = None,
                 difficultyLevel = Some ''Advanced'', includeExplanations = None\<rparr>
         else promises2)"

definition generateAdaptiveQuestions ::
    "(nat \<Rightarrow> completion) \<Rightarrow> (nat \<Rightarrow> string) \<Rightarrow> (nat \<Rightarrow> nat) \<Rightarrow>
     concept list \<Rightarrow> user_performance \<Rightarrow> error + question list" where
  "generateAdaptiveQuestions create now rnd concepts userPerformance =
     (case promise_all (questionPromises create now concepts userPerformance) of
        Inl e \<Rightarrow> Inl (Error ''Failed to generate adaptive questions'')
      | Inr questionSets \<Rightarrow> Inr (shuffleQuestions rnd (concat questionSets)))"

text \<open>
  The allocation policy in the words of the specification: the calls requested, each a
  concept with the options of its call. Up to the first three weak concepts with three
  questions at the adjusted difficulty; of the first two concepts of the list those that
  are not weak, with two questions; the strongest concept, if there is a strong one,
  with one question at \<open>Advanced\<close>.
\<close>

definition requested_mix ::
    "concept list \<Rightarrow> user_performance \<Rightarrow> (concept \<times> generation_options) list" where
  "requested_mix concepts userPerformance =
     map (\<lambda>c. (c, \<lparr>questionCount = Some 3, questionTypes = None,
                    difficultyLevel = Some (adjustDifficultyForPerformance c userPerformance),
                    includeExplanations = None\<rparr>))
       (take 3 (identifyWeakAreas concepts userPerformance)) @
     map (\<lambda>c. (c, \<lparr>questionCount = Some 2,
                    questionTypes = Some [''multiple_choice'', ''short_answer''],
                    difficultyLevel = None, includeExplanations = None\<rparr>))
       (filter (\<lambda>c. c \<notin> set (identifyWeakAreas concepts userPerformance)) (take 2 concepts)) @
     (case identifyStrongAreas concepts userPerformance of
        [] \<Rightarrow> []
      | strongest # _ \<Rightarrow>
          [(strongest, \<lparr>questionCount = Some 1, questionTypes = None,
                        difficultyLevel = Some ''Advanced'', includeExplanations = None\<rparr>)])"


text \<open>
  The last step of \<^verbatim>\<open>shuffleQuestions\<close> on its own: every question gets its
  position, counted from 1, as its number.
\<close>

definition renumber :: "question list \<Rightarrow> question list" where
  "renumber ys = map (\<lambda>(index, question). question\<lparr>number := index + 1\<rparr>) (enumerate 0 ys)"

text \<open>
  The promises of a list of requests issued in order, the first as call number
  \<open>base\<close>.
\<close>

definition issue ::
    "(nat \<Rightarrow> completion) \<Rightarrow> (nat \<Rightarrow> string) \<Rightarrow> nat \<Rightarrow> (concept \<times> generation_options) list \<Rightarrow>
     (error + question list) list" where
  "issue create now base requests =
     map (\<lambda>(k, (c, options)). generateQuestionsForConcept (create k) (now k) c options)
       (enumerate base requests)"

section \<open>fileAnalysisService.js: validateFile\<close>

text \<open>
  \<^verbatim>\<open>
  validateFile(file) {
    const maxSize = 10 * 1024 * 1024; // 10MB
    const allowedTypes = [
      'text/plain', 'text/markdown', 'application/json', 'text/csv',
      'application/pdf' // Note: PDF requires additional processing
    ];
    if (!file) { return { isValid: false, error: 'No file provided' }; }
    if (file?.size > maxSize) { return { isValid: false, error: 'File size exceeds 10MB limit' }; }
    if (!allowedTypes?.some(type => file?.type?.includes(type?.split('/')?.[0]))) {
      return { isValid: false, error: 'Unsupported file type' };
    }
    return { isValid: true };
  }
  \<close>
  A browser \<^verbatim>\<open>File\<close> has a name, a size in bytes and a MIME type (the empty string
  when the browser knows none).
\<close>

record js_file =
  file_name :: string
  file_size :: nat
  file_type :: string

record validation =
  isValid :: bool
  error_message :: "string option"

definition maxSize :: nat where
  "maxSize = 10 * 1024 * 1024"

definition allowedTypes :: "string list" where
  "allowedTypes =
     [''text/plain'', ''text/markdown'', ''application/json'', ''text/csv'',
      ''application/pdf'']"

text \<open>\<^verbatim>\<open>type.split('/')[0]\<close>: the part of the string before its first slash.\<close>

definition split_first :: "string \<Rightarrow> string" where
  "split_first s = takeWhile (\<lambda>c. c \<noteq> CHR ''/'') s"

definition validateFile :: "js_file option \<Rightarrow> validation" where
  "validateFile f =
     (case f of
        None \<Rightarrow> \<lparr>isValid = False, error_message = Some ''No file provided''\<rparr>
      | Some fl \<Rightarrow>
          if file_size fl > maxSize
          then \<lparr>isValid = False, error_message = Some ''File size exceeds 10MB limit''\<rparr>
          else if \<not> list_ex (\<lambda>t. includes_str (file_type fl) (split_first t)) allowedTypes
          then \<lparr>isValid = False, error_message = Some ''Unsupported file type''\<rparr>
          else \<lparr>isValid = True, error_message = None\<rparr>)"

section \<open>Sample data\<close>

definition sample_concept :: "string \<Rightarrow> string \<Rightarrow> nat \<Rightarrow> concept" where
  "sample_concept i d n =
     \<lparr>c_id = i, c_name = i, c_description = [], c_difficulty = d,
      c_prerequisites = Some (replicate n ''p''), c_subConcepts = None, c_examples = None,
      c_misconceptions = None, c_keyPrinciples = None, c_estimatedTime = None,
      c_masteryLevel = 0, c_attempts = 0, c_correctAnswers = 0\<rparr>"

definition sample_question :: "string \<Rightarrow> raw_question" where
  "sample_question s =
     \<lparr>r_id = None, r_type = ''short_answer'', r_difficulty = ''Beginner'', r_question = s,
      r_context = None, r_options = None, r_correctAnswer = ''yes'', r_sampleAnswers = None,
      r_explanation = None, r_learningObjective = None, r_bloomsLevel = None,
      r_estimatedTime = None\<rparr>"

text \<open>A completion that answers with as many questions as it is asked for.\<close>

definition exact_completion :: "nat \<Rightarrow> completion" where
  "exact_completion k concept n types level = Some (replicate n (sample_question level))"


text \<open>A completion that fails on the second call (call number 1) only.\<close>

definition failing_completion :: "nat \<Rightarrow> completion" where
  "failing_completion k concept n types level =
     (if k = 1 then None else Some (replicate n (sample_question level)))"

definition sample_now :: "nat \<Rightarrow> string" where
  "sample_now k = ''2024-01-01T00:00:00.000Z''"

definition first_index :: "nat \<Rightarrow> nat" where
  "first_index i = 0"

definition sample_performance :: user_performance where
  "sample_performance = [''a'' \<mapsto> \<lparr>masteryLevel = 90, attempts = 0\<rparr>]"


definition sample_concepts :: "concept list" where
  "sample_concepts =
     [sample_concept ''a'' ''Advanced'' 0, sample_concept ''b'' ''Beginner'' 1,
      sample_concept ''c'' ''Beginner'' 0, sample_concept ''d'' ''Expert'' 0]"


definition sample_questions :: "question list" where
  "sample_questions =
     (case generateQuestionsForConcept (exact_completion 0) (sample_now 0)
             (sample_concept ''a'' ''Advanced'' 0)
             \<lparr>questionCount = Some 3, questionTypes = None, difficultyLevel = None,
              includeExplanations = None\<rparr> of
        Inr qs \<Rightarrow> qs
      | Inl e \<Rightarrow> [])"

definition zip_file :: js_file where
  "zip_file = \<lparr>file_name = ''archive.zip'', file_size = 100, file_type = ''application/zip''\<rparr>"

section \<open>Properties of the time utilities\<close>

lemma number_to_string_digit: "n < 10 \<Longrightarrow> number_to_string n = [''0123456789'' ! n]"
  by (simp add: number_to_string.simps)

lemma number_to_string_step:
  "10 \<le> n \<Longrightarrow> number_to_string n = number_to_string (n div 10) @ [''0123456789'' ! (n mod 10)]"
  by (subst number_to_string.simps) simp

text \<open>
  \<open>parseInt\<close> reads back the decimal digits that \<open>number_to_string\<close> writes: it is
  the value of the digit string.
\<close>

lemma parseInt_snoc: "parseInt (ds @ [c]) = 10 * parseInt ds + digit_value c"
  by (simp add: parseInt_def)

lemma digit_value_digit: "k < 10 \<Longrightarrow> digit_value (''0123456789'' ! k) = k"
proof -
  assume "k < 10"
  then have "k \<in> set [0..<10]" by simp
  moreover have "list_all (\<lambda>k. digit_value (''0123456789'' ! k) = k) [0..<10]" by code_simp
  ultimately show ?thesis unfolding list_all_iff by blast
qed

lemma parseInt_number_to_string: "parseInt (number_to_string n) = n"
proof (induction n rule: number_to_string.induct)
  case (1 n)
  show ?case
  proof (cases "n < 10")
    case True
    then show ?thesis
      using digit_value_digit [of n] by (simp add: number_to_string_digit parseInt_def)
  next
    case False
    then have "parseInt (number_to_string n) =
        10 * parseInt (number_to_string (n div 10)) + digit_value (''0123456789'' ! (n mod 10))"
      by (simp only: number_to_string_step [of n] parseInt_snoc not_less)
    also have "\<dots> = 10 * (n div 10) + n mod 10"
      using "1.IH" [OF False] digit_value_digit [of "n mod 10"] by simp
    finally show ?thesis by simp
  qed
qed



section \<open>Properties of parseTimeToMinutes\<close>






















































section \<open>Properties of the sort\<close>

lemma length_insort_cmp: "length (insort_cmp cmp x ys) = Suc (length ys)"
  by (induction ys) auto

lemma length_js_sort: "length (js_sort cmp xs) = length xs"
  by (induction xs) (auto simp: js_sort_def length_insort_cmp)

lemma mset_insort_cmp: "mset (insort_cmp cmp x ys) = add_mset x (mset ys)"
  by (induction ys) auto

lemma mset_js_sort: "mset (js_sort cmp xs) = mset xs"
  by (induction xs) (auto simp: js_sort_def mset_insort_cmp)

lemma set_js_sort: "set (js_sort cmp xs) = set xs"
  using mset_js_sort [of cmp xs] by (metis set_mset_mset)



section \<open>Properties of the dependency ordering and the pathway\<close>









text \<open>
  Claim C3. For every non-empty concept list, the pathway \<open>createLearningPathway\<close>
  returns has one entry per concept, and exactly the entry at position 0 has
  \<open>isUnlocked\<close> true. For the empty list and for an absent list the pathway is empty
  and \<open>totalEstimatedTime\<close> is \<open>"0 min"\<close>.
\<close>

theorem createLearningPathway_unlocked:
  "(concepts \<noteq> [] \<longrightarrow>
      pathway (createLearningPathway (Some concepts)) \<noteq> [] \<and>
      length (pathway (createLearningPathway (Some concepts))) = length concepts \<and>
      (\<forall>i < length concepts.
         isUnlocked (pathway (createLearningPathway (Some concepts)) ! i) = (i = 0))) \<and>
   pathway (createLearningPathway None) = [] \<and>
   totalEstimatedTime (createLearningPathway None) = ''0 min'' \<and>
   pathway (createLearningPathway (Some [])) = [] \<and>
   totalEstimatedTime (createLearningPathway (Some [])) = ''0 min''"
proof -
  have "pathway (createLearningPathway (Some concepts)) \<noteq> [] \<and>
      length (pathway (createLearningPathway (Some concepts))) = length concepts \<and>
      (\<forall>i < length concepts.
         isUnlocked (pathway (createLearningPathway (Some concepts)) ! i) = (i = 0))"
    if ne: "concepts \<noteq> []"
  proof -
    define sorted where "sorted = sortConceptsByDependency concepts"
    have len: "length sorted = length concepts"
      by (simp add: sorted_def sortConceptsByDependency_def length_js_sort)
    have p: "pathway (createLearningPathway (Some concepts)) =
        map (\<lambda>(index, concept).
               \<lparr>p_concept = concept, order = index + 1, isUnlocked = (index = 0),
                dependencies = findDependencies concept sorted\<rparr>)
          (enumerate 0 sorted)"
      using ne by (simp add: createLearningPathway_def Let_def sorted_def)
    have l: "length (pathway (createLearningPathway (Some concepts))) = length concepts"
      by (simp add: p len)
    have u: "isUnlocked (pathway (createLearningPathway (Some concepts)) ! i) = (i = 0)"
      if "i < length concepts" for i
      using that by (simp add: p len nth_enumerate_eq)
    from l u ne show ?thesis by auto
  qed
  moreover have "pathway (createLearningPathway None) = []"
    "totalEstimatedTime (createLearningPathway None) = ''0 min''"
    "pathway (createLearningPathway (Some [])) = []"
    "totalEstimatedTime (createLearningPathway (Some [])) = ''0 min''"
    by (simp_all add: createLearningPathway_def)
  ultimately show ?thesis by blast
qed

theorem createLearningPathway_unlocked_witness:
  "length (pathway (createLearningPathway (Some sample_concepts))) = 4 \<and>
   isUnlocked (pathway (createLearningPathway (Some sample_concepts)) ! 0) \<and>
   \<not> isUnlocked (pathway (createLearningPathway (Some sample_concepts)) ! 1) \<and>
   \<not> isUnlocked (pathway (createLearningPathway (Some sample_concepts)) ! 3)"
proof -
  have ne: "sample_concepts \<noteq> []" and len: "length sample_concepts = 4"
    by (simp_all add: sample_concepts_def)
  from createLearningPathway_unlocked [of sample_concepts] ne len
  show ?thesis by simp
qed

section \<open>Properties of the weak and strong areas\<close>



lemma set_identifyWeakAreas:
  "set (identifyWeakAreas concepts up) =
     {c \<in> set concepts.
        (case up (c_id c) of
           None \<Rightarrow> True
         | Some p \<Rightarrow> masteryLevel p < 70 \<or> attempts p = 0)}"
  by (auto simp: identifyWeakAreas_def set_js_sort Let_def split: option.splits)

lemma set_identifyStrongAreas:
  "set (identifyStrongAreas concepts up) =
     {c \<in> set concepts. recorded_mastery up c \<ge> 80}"
  by (auto simp: identifyStrongAreas_def set_js_sort)



lemma promises_singleton_both:
  assumes "userPerformance (c_id concept) = Some p" "attempts p = 0" "masteryLevel p \<ge> 80"
  shows "questionPromises create now [concept] userPerformance =
      [generateQuestionsForConcept (create 0) (now 0) concept
         \<lparr>questionCount = Some 3, questionTypes = None,
          difficultyLevel = Some (adjustDifficultyForPerformance concept userPerformance),
          includeExplanations = None\<rparr>,
       generateQuestionsForConcept (create 1) (now 1) concept
         \<lparr>questionCount = Some 1, questionTypes = None,
          difficultyLevel = Some ''Advanced'', includeExplanations = None\<rparr>]"
proof -
  have w: "identifyWeakAreas [concept] userPerformance = [concept]"
    using assms by (simp add: identifyWeakAreas_def js_sort_def)
  have s: "identifyStrongAreas [concept] userPerformance = [concept]"
    using assms by (simp add: identifyStrongAreas_def js_sort_def recorded_mastery_def)
  show ?thesis
    by (simp add: questionPromises_def w s push_call_def)
qed

text \<open>
  Claim C7. Weak and strong are not exclusive: a concept of the list whose performance
  entry has \<open>attempts = 0\<close> and \<open>masteryLevel \<ge> 80\<close> is returned by
  \<open>identifyWeakAreas\<close> and by \<open>identifyStrongAreas\<close>. The adaptive mix can then
  select it twice: for the list of that one concept, \<open>generateAdaptiveQuestions\<close>
  issues exactly two calls, both for it, one as a weak concept (three questions) and
  one as the strongest concept (one question, Advanced).
\<close>

theorem weak_and_strong_overlap:
  assumes "concept \<in> set concepts"
    and "userPerformance (c_id concept) = Some p"
    and "attempts p = 0"
    and "masteryLevel p \<ge> 80"
  shows "concept \<in> set (identifyWeakAreas concepts userPerformance) \<and>
    concept \<in> set (identifyStrongAreas concepts userPerformance) \<and>
    questionPromises create now [concept] userPerformance =
      [generateQuestionsForConcept (create 0) (now 0) concept
         \<lparr>questionCount = Some 3, questionTypes = None,
          difficultyLevel = Some (adjustDifficultyForPerformance concept userPerformance),
          includeExplanations = None\<rparr>,
       generateQuestionsForConcept (create 1) (now 1) concept
         \<lparr>questionCount = Some 1, questionTypes = None,
          difficultyLevel = Some ''Advanced'', includeExplanations = None\<rparr>]"
proof -
  have "concept \<in> set (identifyWeakAreas concepts userPerformance)"
    using assms by (simp add: set_identifyWeakAreas)
  moreover have "concept \<in> set (identifyStrongAreas concepts userPerformance)"
    using assms by (simp add: set_identifyStrongAreas recorded_mastery_def)
  ultimately show ?thesis
    using promises_singleton_both [of userPerformance concept p create now] assms by simp
qed

theorem weak_and_strong_overlap_witness:
  "sample_concept ''a'' ''Advanced'' 0 \<in> set (identifyWeakAreas sample_concepts sample_performance) \<and>
   sample_concept ''a'' ''Advanced'' 0 \<in> set (identifyStrongAreas sample_concepts sample_performance) \<and>
   questionPromises exact_completion sample_now [sample_concept ''a'' ''Advanced'' 0] sample_performance =
      [generateQuestionsForConcept (exact_completion 0) (sample_now 0) (sample_concept ''a'' ''Advanced'' 0)
         \<lparr>questionCount = Some 3, questionTypes = None,
          difficultyLevel = Some ''Advanced'',
          includeExplanations = None\<rparr>,
       generateQuestionsForConcept (exact_completion 1) (sample_now 1) (sample_concept ''a'' ''Advanced'' 0)
         \<lparr>questionCount = Some 1, questionTypes = None,
          difficultyLevel = Some ''Advanced'', includeExplanations = None\<rparr>]"
  using weak_and_strong_overlap [of "sample_concept ''a'' ''Advanced'' 0" sample_concepts
      sample_performance "\<lparr>masteryLevel = 90, attempts = 0\<rparr>" exact_completion sample_now]
  by (simp add: sample_concepts_def sample_performance_def sample_concept_def
      adjustDifficultyForPerformance_def)

section \<open>Properties of the shuffle\<close>

lemma length_shuffle_loop: "length (shuffle_loop rnd k xs) = length xs"
  by (induction k arbitrary: xs) (auto simp: Let_def)

lemma mset_shuffle_loop:
  assumes "k < length xs" "\<forall>i < length xs. rnd i \<le> i"
  shows "mset (shuffle_loop rnd k xs) = mset xs"
  using assms
proof (induction k arbitrary: xs)
  case 0
  then show ?case by simp
next
  case (Suc k)
  let ?i = "Suc k"
  let ?j = "rnd ?i"
  let ?xs' = "xs[?i := xs ! ?j, ?j := xs ! ?i]"
  have i: "?i < length xs" using Suc.prems by simp
  have j: "?j < length xs" using Suc.prems i by (meson le_less_trans)
  have m: "mset ?xs' = mset xs"
    using mset_swap [OF j i] by simp
  have "mset (shuffle_loop rnd k ?xs') = mset ?xs'"
    using Suc.prems by (intro Suc.IH) auto
  then show ?case using m by (simp add: Let_def)
qed

lemma mset_shuffle_all:
  assumes "\<forall>i < length xs. rnd i \<le> i"
  shows "mset (shuffle_loop rnd (length xs - 1) xs) = mset xs"
proof (cases xs)
  case Nil
  then show ?thesis by simp
next
  case (Cons x xs')
  then have "length xs - 1 < length xs" by simp
  then show ?thesis using assms by (rule mset_shuffle_loop)
qed

lemma shuffleQuestions_renumber:
  "shuffleQuestions rnd questions = renumber (shuffle_loop rnd (length questions - 1) questions)"
  by (simp add: shuffleQuestions_def renumber_def)

lemma length_renumber: "length (renumber ys) = length ys"
  by (simp add: renumber_def)

lemma nth_renumber: "i < length ys \<Longrightarrow> renumber ys ! i = (ys ! i)\<lparr>number := i + 1\<rparr>"
  by (simp add: renumber_def nth_enumerate_eq)

lemma clear_renumber:
  "map (\<lambda>q. q\<lparr>number := 0\<rparr>) (renumber ys) = map (\<lambda>q. q\<lparr>number := 0\<rparr>) ys"
  by (rule nth_equalityI) (simp_all add: length_renumber nth_renumber)


text \<open>
  Claim C8. For every question list of length \<open>N\<close> and every sequence of random
  indices (the index drawn in the iteration with loop variable \<open>i\<close> is at most \<open>i\<close>),
  \<open>shuffleQuestions\<close> returns a permutation of the same \<open>N\<close> questions in which
  the question at position \<open>i\<close> has number \<open>i + 1\<close> and every other field of every
  question is unchanged.
\<close>

theorem shuffleQuestions_permutation:
  assumes "\<forall>i < length questions. rnd i \<le> i"
  shows "(\<exists>ys. mset ys = mset questions \<and>
           shuffleQuestions rnd questions =
             map (\<lambda>(index, q). q\<lparr>number := index + 1\<rparr>) (enumerate 0 ys)) \<and>
         length (shuffleQuestions rnd questions) = length questions \<and>
         (\<forall>i < length questions. number (shuffleQuestions rnd questions ! i) = i + 1) \<and>
         mset (map (\<lambda>q. q\<lparr>number := 0\<rparr>) (shuffleQuestions rnd questions)) =
           mset (map (\<lambda>q. q\<lparr>number := 0\<rparr>) questions)"
proof -
  define ys where "ys = shuffle_loop rnd (length questions - 1) questions"
  have perm: "mset ys = mset questions"
    unfolding ys_def using assms by (rule mset_shuffle_all)
  have out: "shuffleQuestions rnd questions = renumber ys"
    by (simp add: shuffleQuestions_renumber ys_def)
  have len: "length ys = length questions"
    by (simp add: ys_def length_shuffle_loop)
  have ex: "\<exists>ys. mset ys = mset questions \<and>
           shuffleQuestions rnd questions =
             map (\<lambda>(index, q). q\<lparr>number := index + 1\<rparr>) (enumerate 0 ys)"
    using perm out unfolding renumber_def by blast
  have l: "length (shuffleQuestions rnd questions) = length questions"
    by (simp add: out length_renumber len)
  have n: "number (shuffleQuestions rnd questions ! i) = i + 1" if "i < length questions" for i
    using that by (simp add: out nth_renumber len)
  have "mset (map (\<lambda>q. q\<lparr>number := 0\<rparr>) ys) = mset (map (\<lambda>q. q\<lparr>number := 0\<rparr>) questions)"
    using perm by (metis mset_map)
  then have c: "mset (map (\<lambda>q. q\<lparr>number := 0\<rparr>) (shuffleQuestions rnd questions)) =
           mset (map (\<lambda>q. q\<lparr>number := 0\<rparr>) questions)"
    by (simp add: out clear_renumber)
  from ex l n c show ?thesis by blast
qed

theorem shuffleQuestions_permutation_witness:
  "length (shuffleQuestions first_index sample_questions) = 3 \<and>
   number (shuffleQuestions first_index sample_questions ! 2) = 3 \<and>
   mset (map (\<lambda>q. q\<lparr>number := 0\<rparr>) (shuffleQuestions first_index sample_questions)) =
     mset (map (\<lambda>q. q\<lparr>number := 0\<rparr>) sample_questions)"
proof -
  have len: "length sample_questions = 3"
    by (simp add: sample_questions_def generateQuestionsForConcept_def exact_completion_def)
  have h: "\<forall>i < length sample_questions. first_index i \<le> i"
    by (simp add: first_index_def)
  from shuffleQuestions_permutation [OF h] len
  show ?thesis by simp
qed

section \<open>Properties of the adaptive question mix\<close>

lemma issue_Nil: "issue create now base [] = []"
  by (simp add: issue_def)

lemma issue_Cons:
  "issue create now base ((c, options) # rs) =
     generateQuestionsForConcept (create base) (now base) c options #
       issue create now (Suc base) rs"
  by (simp add: issue_def)

lemma length_issue: "length (issue create now base rs) = length rs"
  by (simp add: issue_def)

lemma issue_append:
  "issue create now base (rs @ ss) =
     issue create now base rs @ issue create now (base + length rs) ss"
  by (induction rs arbitrary: base) (auto simp: issue_Nil issue_Cons)

lemma nth_issue:
  "k < length rs \<Longrightarrow>
   issue create now base rs ! k =
     generateQuestionsForConcept (create (base + k)) (now (base + k)) (fst (rs ! k)) (snd (rs ! k))"
  by (simp add: issue_def nth_enumerate_eq split_def)

lemma foldl_push_call:
  "foldl (\<lambda>promises c. push_call create now promises c (f c)) acc xs =
     acc @ issue create now (length acc) (map (\<lambda>c. (c, f c)) xs)"
proof (induction xs arbitrary: acc)
  case Nil
  then show ?case by (simp add: issue_Nil)
next
  case (Cons x xs)
  show ?case
    by (simp add: Cons.IH issue_Cons) (simp add: push_call_def)
qed

lemma foldl_push_call_if:
  "foldl (\<lambda>promises c. if P c then push_call create now promises c (f c) else promises) acc xs =
     acc @ issue create now (length acc) (map (\<lambda>c. (c, f c)) (filter P xs))"
proof (induction xs arbitrary: acc)
  case Nil
  then show ?case by (simp add: issue_Nil)
next
  case (Cons x xs)
  show ?case
  proof (cases "P x")
    case True
    then show ?thesis by (simp add: Cons.IH issue_Cons) (simp add: push_call_def)
  next
    case False
    then show ?thesis by (simp add: Cons.IH)
  qed
qed

lemma push_call_issue:
  "push_call create now promises c options =
     promises @ issue create now (length promises) [(c, options)]"
  by (simp add: push_call_def issue_def)

lemma questionPromises_issue:
  "questionPromises create now concepts up = issue create now 0 (requested_mix concepts up)"
proof -
  let ?weak = "identifyWeakAreas concepts up"
  let ?strong = "identifyStrongAreas concepts up"
  let ?W = "map (\<lambda>c. (c, \<lparr>questionCount = Some 3, questionTypes = None,
                    difficultyLevel = Some (adjustDifficultyForPerformance c up),
                    includeExplanations = None\<rparr>)) (take 3 ?weak)"
  let ?M = "map (\<lambda>c. (c, \<lparr>questionCount = Some 2,
                    questionTypes = Some [''multiple_choice'', ''short_answer''],
                    difficultyLevel = None, includeExplanations = None\<rparr>))
              (filter (\<lambda>c. c \<notin> set ?weak) (take 2 concepts))"
  let ?p2 = "issue create now 0 (?W @ ?M)"
  have qp: "questionPromises create now concepts up =
      (if length ?strong > 0
       then push_call create now ?p2 (?strong ! 0)
              \<lparr>questionCount = Some 1, questionTypes = None,
               difficultyLevel = Some ''Advanced'', includeExplanations = None\<rparr>
       else ?p2)"
    by (simp add: questionPromises_def foldl_push_call foldl_push_call_if length_issue
        issue_append Let_def)
  show ?thesis
  proof (cases ?strong)
    case Nil
    then show ?thesis
      by (simp add: qp requested_mix_def)
  next
    case (Cons s ss)
    then show ?thesis
      unfolding qp push_call_issue requested_mix_def
      by (simp add: issue_append length_issue)
  qed
qed


lemma promise_all_rejected:
  assumes "k < length ps" "ps ! k = Inl e"
  shows "\<exists>e'. promise_all ps = Inl e'"
  using assms
proof (induction ps arbitrary: k)
  case Nil
  then show ?case by simp
next
  case (Cons p ps)
  show ?case
  proof (cases k)
    case 0
    then show ?thesis using Cons.prems by simp
  next
    case (Suc k')
    then obtain e' where "promise_all ps = Inl e'"
      using Cons.IH [of k'] Cons.prems by auto
    then show ?thesis by (cases p) auto
  qed
qed




lemma mix_single_strong:
  "requested_mix [sample_concept ''a'' ''Advanced'' 0] sample_performance =
     [(sample_concept ''a'' ''Advanced'' 0,
       \<lparr>questionCount = Some 3, questionTypes = None,
        difficultyLevel = Some ''Advanced'', includeExplanations = None\<rparr>),
      (sample_concept ''a'' ''Advanced'' 0,
       \<lparr>questionCount = Some 1, questionTypes = None,
        difficultyLevel = Some ''Advanced'', includeExplanations = None\<rparr>)]"
  by (simp add: requested_mix_def identifyWeakAreas_def identifyStrongAreas_def js_sort_def
      sample_performance_def sample_concept_def recorded_mastery_def
      adjustDifficultyForPerformance_def)






text \<open>
  Claim C9. If one of the issued generation calls fails, \<open>generateAdaptiveQuestions\<close>
  fails as a whole with its own error; the result carries no question of the calls
  that succeeded.
\<close>

theorem generateAdaptiveQuestions_all_or_nothing:
  assumes "k < length (requested_mix concepts up)"
    and "generateQuestionsForConcept (create k) (now k)
        (fst (requested_mix concepts up ! k)) (snd (requested_mix concepts up ! k)) = Inl e"
  shows "generateAdaptiveQuestions create now rnd concepts up =
      Inl (Error ''Failed to generate adaptive questions'')"
proof -
  let ?ps = "questionPromises create now concepts up"
  have l: "k < length ?ps"
    using assms(1) by (simp add: questionPromises_issue length_issue)
  have "issue create now 0 (requested_mix concepts up) ! k = Inl e"
    using nth_issue [OF assms(1), of create now 0] assms(2) by simp
  then have r: "?ps ! k = Inl e"
    by (simp add: questionPromises_issue)
  from promise_all_rejected [OF l r] obtain e' where "promise_all ?ps = Inl e'" ..
  then show ?thesis
    by (simp add: generateAdaptiveQuestions_def)
qed

theorem generateAdaptiveQuestions_all_or_nothing_witness:
  "generateAdaptiveQuestions failing_completion sample_now first_index
     [sample_concept ''a'' ''Advanced'' 0] sample_performance =
   Inl (Error ''Failed to generate adaptive questions'')"
proof -
  let ?cs = "[sample_concept ''a'' ''Advanced'' 0]"
  let ?mix = "requested_mix ?cs sample_performance"
  have h1: "1 < length ?mix"
    by (simp add: mix_single_strong)
  have h2: "generateQuestionsForConcept (failing_completion 1) (sample_now 1)
        (fst (?mix ! 1)) (snd (?mix ! 1)) =
      Inl (Error ''Failed to generate questions for concept'')"
    by (simp add: generateQuestionsForConcept_def failing_completion_def)
  from generateAdaptiveQuestions_all_or_nothing
    [where k = 1 and concepts = ?cs and up = sample_performance and create = failing_completion
       and now = sample_now and rnd = first_index, OF h1 h2]
  show ?thesis .
qed

section \<open>Properties of validateFile\<close>

text \<open>
  Claim C10 says that a file whose type is not on the allow-list is rejected. The check
  compares only the part of each allowed type before the slash, so a type that contains
  \<open>application\<close> or \<open>text\<close> passes: a zip archive of 100 bytes is reported valid.
\<close>

theorem validateFile_accepts_zip:
  "file_type zip_file \<notin> set allowedTypes \<and>
   validateFile (Some zip_file) = \<lparr>isValid = True, error_message = None\<rparr>"
  by (simp add: validateFile_def zip_file_def allowedTypes_def maxSize_def split_first_def
      includes_str_def)

end
